theory Spec2Isabelle
  imports Complex_Main
begin

section \<open>Values\<close>

text \<open>
  JavaScript numbers are modelled as reals (IEEE rounding is not part of the embedding).
  The one partial operation the program uses is \<open>/\<close> on the window dimensions, which in
  JavaScript yields \<open>Infinity\<close> or \<open>NaN\<close> for a zero divisor, while division by zero
  in HOL is \<open>0\<close>; so the quotient has a type of its own.
\<close>

datatype jsnum = Num real | Infinity | NaN

text \<open>\<open>window.innerWidth / window.innerHeight\<close>: both operands are non-negative integers.\<close>

definition js_div :: "nat \<Rightarrow> nat \<Rightarrow> jsnum" where
  "js_div a b = (if b = 0 then (if a = 0 then NaN else Infinity) else Num (real a / real b))"

datatype vec3 = Vector3 (vec_x: real) (vec_y: real) (vec_z: real)

definition Math_PI :: real where
  "Math_PI = pi"

type_synonym ref = nat

section \<open>Objects of the rendering engine\<close>

record material_param =
  color :: nat
  metalness :: real
  roughness :: real
  transmission :: real
  clearcoat :: real
  clearcoatRoughness :: real
  reflectivity :: real

text \<open>
  The projection matrix of a camera is a function of \<open>fov\<close>, \<open>aspect\<close>, \<open>near\<close> and
  \<open>far\<close>; it is represented by the four values it was last computed from. The orientation
  that \<open>lookAt\<close> derives is represented by the eye position and the target it was derived from.
\<close>

record camera_state =
  fov :: real
  aspect :: jsnum
  near :: real
  far :: real
  position :: vec3
  orientation :: "(vec3 \<times> vec3) option"
  projectionMatrix :: "real \<times> jsnum \<times> real \<times> real"

datatype obj =
    WebGLRenderer bool nat "nat \<times> nat"
  | Scene "ref list"
  | PerspectiveCamera camera_state
  | DirectionalLight nat real vec3
  | AmbientLight nat real
  | BoxGeometry real real real
  | MeshPhysicalMaterial material_param
  | Mesh ref ref vec3 vec3
  | OrbitControls ref ref bool real

section \<open>The application object and the host\<close>

text \<open>
  The fields of a \<open>ThreeApp\<close> instance; each is assigned once, in the constructor
  (\<open>axesHelper\<close> is declared and never assigned).
\<close>

record ThreeApp =
  renderer :: ref
  scene :: ref
  camera :: ref
  directionalLight :: ref
  ambientLight :: ref
  geometry :: ref
  material :: ref
  controls :: ref
  box :: ref
  boxArray :: "ref list"

text \<open>\<open>this.render.bind(this)\<close> and the arrow function given to \<open>addEventListener\<close>.\<close>

datatype callback = RenderCallback ThreeApp

datatype listener = ResizeListener ThreeApp

text \<open>
  The calls the program makes to \<open>requestAnimationFrame\<close>, \<open>controls.update\<close>,
  \<open>renderer.render\<close> and \<open>camera.updateProjectionMatrix\<close>, in the order it makes them.
\<close>

datatype call =
    Call_requestAnimationFrame callback
  | Call_controls_update ref
  | Call_renderer_render ref ref ref
  | Call_updateProjectionMatrix ref

text \<open>
  The store of engine objects (a reference is an index into \<open>heap\<close>), the values
  \<open>Math.random()\<close> is going to return, the window's dimensions, the children of the
  wrapper element, the registered listeners and frame callbacks, and the call log.
\<close>

record world =
  heap :: "obj list"
  random_source :: "nat \<Rightarrow> real"
  innerWidth :: nat
  innerHeight :: nat
  wrapper_children :: "ref list"
  resize_listeners :: "listener list"
  animation_frame_callbacks :: "callback list"
  calls :: "call list"

definition deref :: "world \<Rightarrow> ref \<Rightarrow> obj option" where
  "deref w r = (if r < length (heap w) then Some (heap w ! r) else None)"

text \<open>\<open>new\<close>: the object is stored at the next free index.\<close>

definition alloc :: "obj \<Rightarrow> world \<Rightarrow> ref \<times> world" where
  "alloc ob w = (length (heap w), w\<lparr>heap := heap w @ [ob]\<rparr>)"

text \<open>
  In-place mutation of the object behind a reference. The list update leaves the heap
  as it is when the reference is out of range.
\<close>

definition modify :: "ref \<Rightarrow> (obj \<Rightarrow> obj) \<Rightarrow> world \<Rightarrow> world" where
  "modify r f w = w\<lparr>heap := (heap w)[r := f (heap w ! r)]\<rparr>"

section \<open>Engine and host operations\<close>

text \<open>
  Modelled from the spec: the methods of the rendering engine, of the interaction engine
  and of the host environment that the program calls (\<open>lib/three.module.js\<close>,
  \<open>lib/OrbitControls.js\<close> and the browser are not part of the sources). Each is given
  the effect that sections 3, 4 and 6 of the specification describe. A method applied to an
  object of another kind leaves it unchanged; \<open>ThreeApp_wf\<close> below says that the
  references of an application have the kinds its constructor gave them.
\<close>

fun obj_setClearColor :: "nat \<Rightarrow> obj \<Rightarrow> obj" where
  "obj_setClearColor c (WebGLRenderer a _ s) = WebGLRenderer a c s"
| "obj_setClearColor c ob = ob"

fun obj_setSize :: "nat \<Rightarrow> nat \<Rightarrow> obj \<Rightarrow> obj" where
  "obj_setSize wd ht (WebGLRenderer a c _) = WebGLRenderer a c (wd, ht)"
| "obj_setSize wd ht ob = ob"

fun obj_add :: "ref \<Rightarrow> obj \<Rightarrow> obj" where
  "obj_add r (Scene cs) = Scene (cs @ [r])"
| "obj_add r ob = ob"

fun obj_camera :: "(camera_state \<Rightarrow> camera_state) \<Rightarrow> obj \<Rightarrow> obj" where
  "obj_camera f (PerspectiveCamera c) = PerspectiveCamera (f c)"
| "obj_camera f ob = ob"

fun obj_position :: "(vec3 \<Rightarrow> vec3) \<Rightarrow> obj \<Rightarrow> obj" where
  "obj_position f (Mesh g m p r) = Mesh g m (f p) r"
| "obj_position f (DirectionalLight c i p) = DirectionalLight c i (f p)"
| "obj_position f (PerspectiveCamera c) = PerspectiveCamera (c\<lparr>position := f (position c)\<rparr>)"
| "obj_position f ob = ob"

fun obj_rotation :: "(vec3 \<Rightarrow> vec3) \<Rightarrow> obj \<Rightarrow> obj" where
  "obj_rotation f (Mesh g m p r) = Mesh g m p (f r)"
| "obj_rotation f ob = ob"

fun obj_autoRotate :: "bool \<Rightarrow> obj \<Rightarrow> obj" where
  "obj_autoRotate b (OrbitControls c d _ s) = OrbitControls c d b s"
| "obj_autoRotate b ob = ob"

fun obj_autoRotateSpeed :: "real \<Rightarrow> obj \<Rightarrow> obj" where
  "obj_autoRotateSpeed s (OrbitControls c d b _) = OrbitControls c d b s"
| "obj_autoRotateSpeed s ob = ob"

definition current_projection :: "camera_state \<Rightarrow> real \<times> jsnum \<times> real \<times> real" where
  "current_projection c = (fov c, aspect c, near c, far c)"

text \<open>
  Modelled from the spec: \<open>new THREE.WebGLRenderer({antialias})\<close>, a renderer with a
  settable clear colour and output size. The values it starts with stand for the engine's
  defaults; the constructor overwrites both before anything reads them.
\<close>

definition new_WebGLRenderer :: "bool \<Rightarrow> world \<Rightarrow> ref \<times> world" where
  "new_WebGLRenderer a w = alloc (WebGLRenderer a 0 (300, 150)) w"

definition setClearColor :: "ref \<Rightarrow> nat \<Rightarrow> world \<Rightarrow> world" where
  "setClearColor r c w = modify r (obj_setClearColor c) w"

definition setSize :: "ref \<Rightarrow> nat \<Rightarrow> nat \<Rightarrow> world \<Rightarrow> world" where
  "setSize r wd ht w = modify r (obj_setSize wd ht) w"

definition appendChild :: "ref \<Rightarrow> world \<Rightarrow> world" where
  "appendChild r w = w\<lparr>wrapper_children := wrapper_children w @ [r]\<rparr>"

definition new_Scene :: "world \<Rightarrow> ref \<times> world" where
  "new_Scene w = alloc (Scene []) w"

definition Scene_add :: "ref \<Rightarrow> ref \<Rightarrow> world \<Rightarrow> world" where
  "Scene_add s r w = modify s (obj_add r) w"

text \<open>
  Modelled from the spec: a perspective camera with settable \<open>fov\<close>, \<open>aspect\<close>,
  \<open>near\<close>, \<open>far\<close>, position and orientation and an explicit operation that recomputes
  the projection from them. A new camera sits at the origin with the default orientation
  and the projection of its parameters.
\<close>

definition new_PerspectiveCamera :: "real \<Rightarrow> jsnum \<Rightarrow> real \<Rightarrow> real \<Rightarrow> world \<Rightarrow> ref \<times> world" where
  "new_PerspectiveCamera fv a n f w =
     alloc (PerspectiveCamera \<lparr>fov = fv, aspect = a, near = n, far = f,
              position = Vector3 0 0 0, orientation = None,
              projectionMatrix = (fv, a, n, f)\<rparr>) w"

definition position_copy :: "ref \<Rightarrow> vec3 \<Rightarrow> world \<Rightarrow> world" where
  "position_copy r v w = modify r (obj_position (\<lambda>_. v)) w"

definition lookAt :: "ref \<Rightarrow> vec3 \<Rightarrow> world \<Rightarrow> world" where
  "lookAt r t w = modify r (obj_camera (\<lambda>c. c\<lparr>orientation := Some (position c, t)\<rparr>)) w"

definition set_aspect :: "ref \<Rightarrow> jsnum \<Rightarrow> world \<Rightarrow> world" where
  "set_aspect r a w = modify r (obj_camera (\<lambda>c. c\<lparr>aspect := a\<rparr>)) w"

definition updateProjectionMatrix :: "ref \<Rightarrow> world \<Rightarrow> world" where
  "updateProjectionMatrix r w =
     (modify r (obj_camera (\<lambda>c. c\<lparr>projectionMatrix := current_projection c\<rparr>)) w)
       \<lparr>calls := calls w @ [Call_updateProjectionMatrix r]\<rparr>"

definition new_DirectionalLight :: "nat \<Rightarrow> real \<Rightarrow> world \<Rightarrow> ref \<times> world" where
  "new_DirectionalLight c i w = alloc (DirectionalLight c i (Vector3 0 1 0)) w"

definition new_AmbientLight :: "nat \<Rightarrow> real \<Rightarrow> world \<Rightarrow> ref \<times> world" where
  "new_AmbientLight c i w = alloc (AmbientLight c i) w"

definition new_BoxGeometry :: "real \<Rightarrow> real \<Rightarrow> real \<Rightarrow> world \<Rightarrow> ref \<times> world" where
  "new_BoxGeometry a b c w = alloc (BoxGeometry a b c) w"

definition new_MeshPhysicalMaterial :: "material_param \<Rightarrow> world \<Rightarrow> ref \<times> world" where
  "new_MeshPhysicalMaterial p w = alloc (MeshPhysicalMaterial p) w"

text \<open>
  Modelled from the spec: a mesh instance is a geometry reference, a material reference
  and a transform. A new mesh refers to the geometry and the material it is given and is
  placed at the origin, untransformed.
\<close>

definition new_Mesh :: "ref \<Rightarrow> ref \<Rightarrow> world \<Rightarrow> ref \<times> world" where
  "new_Mesh g m w = alloc (Mesh g m (Vector3 0 0 0) (Vector3 0 0 0)) w"

definition set_position_x :: "ref \<Rightarrow> real \<Rightarrow> world \<Rightarrow> world" where
  "set_position_x r v w = modify r (obj_position (\<lambda>p. Vector3 v (vec_y p) (vec_z p))) w"

definition set_position_y :: "ref \<Rightarrow> real \<Rightarrow> world \<Rightarrow> world" where
  "set_position_y r v w = modify r (obj_position (\<lambda>p. Vector3 (vec_x p) v (vec_z p))) w"

definition set_position_z :: "ref \<Rightarrow> real \<Rightarrow> world \<Rightarrow> world" where
  "set_position_z r v w = modify r (obj_position (\<lambda>p. Vector3 (vec_x p) (vec_y p) v)) w"

definition set_rotation_x :: "ref \<Rightarrow> real \<Rightarrow> world \<Rightarrow> world" where
  "set_rotation_x r v w = modify r (obj_rotation (\<lambda>p. Vector3 v (vec_y p) (vec_z p))) w"

definition set_rotation_y :: "ref \<Rightarrow> real \<Rightarrow> world \<Rightarrow> world" where
  "set_rotation_y r v w = modify r (obj_rotation (\<lambda>p. Vector3 (vec_x p) v (vec_z p))) w"

definition set_rotation_z :: "ref \<Rightarrow> real \<Rightarrow> world \<Rightarrow> world" where
  "set_rotation_z r v w = modify r (obj_rotation (\<lambda>p. Vector3 (vec_x p) (vec_y p) v)) w"

text \<open>
  Modelled from the spec: \<open>new OrbitControls(camera, domElement)\<close>, a controller bound
  to a camera and a surface, with an auto-rotate flag and an angular speed. The values the
  two fields start with stand for the engine's defaults; the constructor sets both.
\<close>

definition new_OrbitControls :: "ref \<Rightarrow> ref \<Rightarrow> world \<Rightarrow> ref \<times> world" where
  "new_OrbitControls c d w = alloc (OrbitControls c d False 2) w"

definition set_autoRotate :: "ref \<Rightarrow> bool \<Rightarrow> world \<Rightarrow> world" where
  "set_autoRotate r b w = modify r (obj_autoRotate b) w"

definition set_autoRotateSpeed :: "ref \<Rightarrow> real \<Rightarrow> world \<Rightarrow> world" where
  "set_autoRotateSpeed r s w = modify r (obj_autoRotateSpeed s) w"

text \<open>
  Modelled from the spec: \<open>controls.update()\<close> and \<open>renderer.render(scene, camera)\<close>.
  What the interaction engine does to the camera transform and what the draw puts on the
  surface are outside the embedding; the calls are recorded.
\<close>

definition OrbitControls_update :: "ref \<Rightarrow> world \<Rightarrow> world" where
  "OrbitControls_update r w = w\<lparr>calls := calls w @ [Call_controls_update r]\<rparr>"

definition WebGLRenderer_render :: "ref \<Rightarrow> ref \<Rightarrow> ref \<Rightarrow> world \<Rightarrow> world" where
  "WebGLRenderer_render r s c w = w\<lparr>calls := calls w @ [Call_renderer_render r s c]\<rparr>"

text \<open>
  Modelled from the spec: the frame-scheduling primitive of the host. The callback joins
  the list run at the next frame.
\<close>

definition requestAnimationFrame :: "callback \<Rightarrow> world \<Rightarrow> world" where
  "requestAnimationFrame cb w =
     w\<lparr>animation_frame_callbacks := animation_frame_callbacks w @ [cb],
       calls := calls w @ [Call_requestAnimationFrame cb]\<rparr>"

definition addEventListener_resize :: "listener \<Rightarrow> world \<Rightarrow> world" where
  "addEventListener_resize l w = w\<lparr>resize_listeners := resize_listeners w @ [l]\<rparr>"

text \<open>\<open>Math.random()\<close> returns the next value of the source.\<close>

definition Math_random :: "world \<Rightarrow> real \<times> world" where
  "Math_random w = (random_source w 0, w\<lparr>random_source := (\<lambda>n. random_source w (Suc n))\<rparr>)"

section \<open>The static parameter tables\<close>

text \<open>
  \<open>CAMERA_PARAM.aspect\<close>, \<open>RENDERER_PARAM.width\<close> and \<open>RENDERER_PARAM.height\<close> are
  computed from the window once, when the class is defined.
\<close>

record statics =
  CAMERA_PARAM_aspect :: jsnum
  RENDERER_PARAM_width :: nat
  RENDERER_PARAM_height :: nat

definition class_init :: "world \<Rightarrow> statics" where
  "class_init w =
     \<lparr>CAMERA_PARAM_aspect = js_div (innerWidth w) (innerHeight w),
      RENDERER_PARAM_width = innerWidth w,
      RENDERER_PARAM_height = innerHeight w\<rparr>"

definition CAMERA_PARAM_fovy :: real where "CAMERA_PARAM_fovy = 60"
definition CAMERA_PARAM_near :: real where "CAMERA_PARAM_near = 0.1"
definition CAMERA_PARAM_far :: real where "CAMERA_PARAM_far = 10.0"
definition CAMERA_PARAM_position :: vec3 where "CAMERA_PARAM_position = Vector3 5.0 2.0 3.0"
definition CAMERA_PARAM_lookAt :: vec3 where "CAMERA_PARAM_lookAt = Vector3 0.0 0.0 0.0"

definition RENDERER_PARAM_clearColor :: nat where "RENDERER_PARAM_clearColor = 0x000000"

definition DIRECTIONAL_LIGHT_PARAM_color :: nat where "DIRECTIONAL_LIGHT_PARAM_color = 0x0045e0"
definition DIRECTIONAL_LIGHT_PARAM_intensity :: real where "DIRECTIONAL_LIGHT_PARAM_intensity = 60.0"
definition DIRECTIONAL_LIGHT_PARAM_position :: vec3 where
  "DIRECTIONAL_LIGHT_PARAM_position = Vector3 30 100 50"

definition AMBIENT_LIGHT_PARAM_color :: nat where "AMBIENT_LIGHT_PARAM_color = 0xd450ff"
definition AMBIENT_LIGHT_PARAM_intensity :: real where "AMBIENT_LIGHT_PARAM_intensity = 900.0"

definition MATERIAL_PARAM :: material_param where
  "MATERIAL_PARAM =
     \<lparr>color = 0xffffff, metalness = 1.0, roughness = 0.20, transmission = 1.0,
      clearcoat = 1.0, clearcoatRoughness = 0.0, reflectivity = 1.0\<rparr>"

section \<open>The constructor\<close>

definition boxCount :: nat where "boxCount = 100"
definition transformScale :: real where "transformScale = 6.0"

text \<open>
  The body of the \<open>for\<close> loop: a mesh of the shared geometry and material, three position
  components and three rotation components drawn in this order, the mesh added to the
  scene and pushed onto \<open>boxArray\<close>.
\<close>

definition box_body :: "ref \<Rightarrow> ref \<Rightarrow> ref \<Rightarrow> ref list \<times> world \<Rightarrow> ref list \<times> world" where
  "box_body g m s = (\<lambda>(arr, w).
     (let (b, w) = new_Mesh g m w;
          (r, w) = Math_random w;
          w = set_position_x b ((r * 2.0 - 1.0) * transformScale) w;
          (r, w) = Math_random w;
          w = set_position_y b ((r * 2.0 - 1.0) * transformScale) w;
          (r, w) = Math_random w;
          w = set_position_z b ((r * 2.0 - 1.0) * transformScale) w;
          (r, w) = Math_random w;
          w = set_rotation_x b (r * Math_PI * 2) w;
          (r, w) = Math_random w;
          w = set_rotation_y b (r * Math_PI * 2) w;
          (r, w) = Math_random w;
          w = set_rotation_z b (r * Math_PI * 2) w;
          w = Scene_add s b w
      in (arr @ [b], w)))"

text \<open>\<open>for (let i = 0; i < boxCount; ++i)\<close>, with the bound as an argument.\<close>

function box_loop :: "nat \<Rightarrow> nat \<Rightarrow> ref \<Rightarrow> ref \<Rightarrow> ref \<Rightarrow> ref list \<times> world \<Rightarrow> ref list \<times> world" where
  "box_loop i n g m s aw = (if i < n then box_loop (i + 1) n g m s (box_body g m s aw) else aw)"
  by pat_completeness auto
termination
  by (relation "measure (\<lambda>(i, n, g, m, s, aw). n - i)") auto

declare box_loop.simps [simp del]

text \<open>
  The constructor with the population size \<open>n\<close> in place of the constant. The colour
  object made from \<open>RENDERER_PARAM.clearColor\<close> is the colour value itself, and
  \<open>this.render = this.render.bind(this)\<close> is the callback \<open>RenderCallback this\<close> that
  \<open>render\<close> registers.
\<close>

definition construct :: "nat \<Rightarrow> statics \<Rightarrow> world \<Rightarrow> ThreeApp \<times> world" where
  "construct n st w =
     (let color = RENDERER_PARAM_clearColor;
          (rd, w) = new_WebGLRenderer True w;
          w = setClearColor rd color w;
          w = setSize rd (RENDERER_PARAM_width st) (RENDERER_PARAM_height st) w;
          w = appendChild rd w;
          (sc, w) = new_Scene w;
          (cam, w) = new_PerspectiveCamera CAMERA_PARAM_fovy (CAMERA_PARAM_aspect st)
                       CAMERA_PARAM_near CAMERA_PARAM_far w;
          w = position_copy cam CAMERA_PARAM_position w;
          w = lookAt cam CAMERA_PARAM_lookAt w;
          (dl, w) = new_DirectionalLight DIRECTIONAL_LIGHT_PARAM_color
                      DIRECTIONAL_LIGHT_PARAM_intensity w;
          w = position_copy dl DIRECTIONAL_LIGHT_PARAM_position w;
          w = Scene_add sc dl w;
          (al, w) = new_AmbientLight AMBIENT_LIGHT_PARAM_color AMBIENT_LIGHT_PARAM_intensity w;
          w = Scene_add sc al w;
          (g, w) = new_BoxGeometry 1.0 1.0 1.0 w;
          (m, w) = new_MeshPhysicalMaterial MATERIAL_PARAM w;
          (arr, w) = box_loop 0 n g m sc ([], w);
          (bx, w) = new_Mesh g m w;
          w = Scene_add sc bx w;
          (ct, w) = new_OrbitControls cam rd w;
          this = \<lparr>renderer = rd, scene = sc, camera = cam, directionalLight = dl,
                  ambientLight = al, geometry = g, material = m, controls = ct,
                  box = bx, boxArray = arr\<rparr>;
          w = addEventListener_resize (ResizeListener this) w;
          w = set_autoRotate ct True w;
          w = set_autoRotateSpeed ct 3.0 w
      in (this, w))"

definition ThreeApp_constructor :: "statics \<Rightarrow> world \<Rightarrow> ThreeApp \<times> world" where
  "ThreeApp_constructor st w = construct boxCount st w"

section \<open>The resize listener and \<open>render\<close>\<close>

definition resize_listener :: "ThreeApp \<Rightarrow> world \<Rightarrow> world" where
  "resize_listener this w =
     (let w = setSize (renderer this) (innerWidth w) (innerHeight w) w;
          w = set_aspect (camera this) (js_div (innerWidth w) (innerHeight w)) w;
          w = updateProjectionMatrix (camera this) w
      in w)"

definition render :: "ThreeApp \<Rightarrow> world \<Rightarrow> world" where
  "render this w =
     (let w = requestAnimationFrame (RenderCallback this) w;
          w = OrbitControls_update (controls this) w;
          w = WebGLRenderer_render (renderer this) (scene this) (camera this) w
      in w)"

text \<open>The \<open>DOMContentLoaded\<close> listener: construct the application, call \<open>render\<close> once.\<close>

definition on_DOMContentLoaded :: "statics \<Rightarrow> world \<Rightarrow> ThreeApp \<times> world" where
  "on_DOMContentLoaded st w = (let (app, w) = ThreeApp_constructor st w in (app, render app w))"

section \<open>Events of the host\<close>

text \<open>
  Modelled from the spec: the host environment (section 6). A frame runs the callbacks
  that were pending when it began, each once; a callback registered meanwhile waits for
  the next frame. A resize gives the window its new dimensions and runs the listeners.
\<close>

fun run_callback :: "callback \<Rightarrow> world \<Rightarrow> world" where
  "run_callback (RenderCallback a) w = render a w"

fun run_listener :: "listener \<Rightarrow> world \<Rightarrow> world" where
  "run_listener (ResizeListener a) w = resize_listener a w"

definition animation_frame :: "world \<Rightarrow> world" where
  "animation_frame w =
     fold run_callback (animation_frame_callbacks w) (w\<lparr>animation_frame_callbacks := []\<rparr>)"

definition window_resize :: "nat \<Rightarrow> nat \<Rightarrow> world \<Rightarrow> world" where
  "window_resize wd ht w =
     fold run_listener (resize_listeners w) (w\<lparr>innerWidth := wd, innerHeight := ht\<rparr>)"

text \<open>The resize listener of one application, run for a resize to \<open>wd\<close> by \<open>ht\<close>.\<close>

definition resize_to :: "ThreeApp \<Rightarrow> nat \<Rightarrow> nat \<Rightarrow> world \<Rightarrow> world" where
  "resize_to this wd ht w = resize_listener this (w\<lparr>innerWidth := wd, innerHeight := ht\<rparr>)"

datatype event = AnimationFrame | WindowResize nat nat

fun step :: "event \<Rightarrow> world \<Rightarrow> world" where
  "step AnimationFrame w = animation_frame w"
| "step (WindowResize wd ht) w = window_resize wd ht w"

definition run :: "event list \<Rightarrow> world \<Rightarrow> world" where
  "run es w = fold step es w"

section \<open>Observations\<close>

text \<open>The objects allocated between two worlds, oldest first.\<close>

definition created :: "world \<Rightarrow> world \<Rightarrow> obj list" where
  "created w w' = drop (length (heap w)) (heap w')"

fun is_Mesh :: "obj \<Rightarrow> bool" where
  "is_Mesh (Mesh g m p r) = True"
| "is_Mesh ob = False"

fun is_light :: "obj \<Rightarrow> bool" where
  "is_light (DirectionalLight c i p) = True"
| "is_light (AmbientLight c i) = True"
| "is_light ob = False"

fun is_BoxGeometry :: "obj \<Rightarrow> bool" where
  "is_BoxGeometry (BoxGeometry a b c) = True"
| "is_BoxGeometry ob = False"

fun is_MeshPhysicalMaterial :: "obj \<Rightarrow> bool" where
  "is_MeshPhysicalMaterial (MeshPhysicalMaterial p) = True"
| "is_MeshPhysicalMaterial ob = False"

definition has_kind :: "(obj \<Rightarrow> bool) \<Rightarrow> world \<Rightarrow> ref \<Rightarrow> bool" where
  "has_kind P w r = (case deref w r of Some ob \<Rightarrow> P ob | None \<Rightarrow> False)"

definition scene_children :: "world \<Rightarrow> ref \<Rightarrow> ref list" where
  "scene_children w s = (case deref w s of Some (Scene cs) \<Rightarrow> cs | _ \<Rightarrow> [])"

text \<open>The geometry and the material a mesh refers to; its position and rotation.\<close>

definition mesh_resources :: "world \<Rightarrow> ref \<Rightarrow> (ref \<times> ref) option" where
  "mesh_resources w r = (case deref w r of Some (Mesh g m p rot) \<Rightarrow> Some (g, m) | _ \<Rightarrow> None)"

definition mesh_transform :: "world \<Rightarrow> ref \<Rightarrow> (vec3 \<times> vec3) option" where
  "mesh_transform w r = (case deref w r of Some (Mesh g m p rot) \<Rightarrow> Some (p, rot) | _ \<Rightarrow> None)"

definition renderer_size :: "world \<Rightarrow> ref \<Rightarrow> (nat \<times> nat) option" where
  "renderer_size w r = (case deref w r of Some (WebGLRenderer a c s) \<Rightarrow> Some s | _ \<Rightarrow> None)"

definition camera_of :: "world \<Rightarrow> ref \<Rightarrow> camera_state option" where
  "camera_of w r = (case deref w r of Some (PerspectiveCamera c) \<Rightarrow> Some c | _ \<Rightarrow> None)"

definition camera_aspect :: "world \<Rightarrow> ref \<Rightarrow> jsnum option" where
  "camera_aspect w r = map_option aspect (camera_of w r)"

text \<open>The transforms of the population, in the order of \<open>boxArray\<close>.\<close>

definition population_transforms :: "ThreeApp \<times> world \<Rightarrow> (vec3 \<times> vec3) option list" where
  "population_transforms aw = map (mesh_transform (snd aw)) (boxArray (fst aw))"

definition position_in_range :: "vec3 \<Rightarrow> bool" where
  "position_in_range p =
     (- 6 \<le> vec_x p \<and> vec_x p \<le> 6 \<and> - 6 \<le> vec_y p \<and> vec_y p \<le> 6
      \<and> - 6 \<le> vec_z p \<and> vec_z p \<le> 6)"

definition rotation_in_range :: "vec3 \<Rightarrow> bool" where
  "rotation_in_range r =
     (0 \<le> vec_x r \<and> vec_x r < 2 * pi \<and> 0 \<le> vec_y r \<and> vec_y r < 2 * pi
      \<and> 0 \<le> vec_z r \<and> vec_z r < 2 * pi)"

fun transform_in_range :: "(vec3 \<times> vec3) option \<Rightarrow> bool" where
  "transform_in_range (Some (p, r)) = (position_in_range p \<and> rotation_in_range r)"
| "transform_in_range None = False"

text \<open>
  The references of an application have the kinds the constructor gave them: the methods
  that \<open>render\<close> and the resize listener call are called on objects that have them.
\<close>

fun is_WebGLRenderer :: "obj \<Rightarrow> bool" where
  "is_WebGLRenderer (WebGLRenderer a c s) = True"
| "is_WebGLRenderer ob = False"

fun is_Scene :: "obj \<Rightarrow> bool" where
  "is_Scene (Scene cs) = True"
| "is_Scene ob = False"

fun is_PerspectiveCamera :: "obj \<Rightarrow> bool" where
  "is_PerspectiveCamera (PerspectiveCamera c) = True"
| "is_PerspectiveCamera ob = False"

fun is_OrbitControls :: "obj \<Rightarrow> bool" where
  "is_OrbitControls (OrbitControls c d b s) = True"
| "is_OrbitControls ob = False"

definition ThreeApp_wf :: "ThreeApp \<Rightarrow> world \<Rightarrow> bool" where
  "ThreeApp_wf this w =
     (has_kind is_WebGLRenderer w (renderer this) \<and> has_kind is_Scene w (scene this)
      \<and> has_kind is_PerspectiveCamera w (camera this)
      \<and> has_kind is_light w (directionalLight this) \<and> has_kind is_light w (ambientLight this)
      \<and> has_kind is_BoxGeometry w (geometry this)
      \<and> has_kind is_MeshPhysicalMaterial w (material this)
      \<and> has_kind is_OrbitControls w (controls this)
      \<and> has_kind is_Mesh w (box this) \<and> list_all (has_kind is_Mesh w) (boxArray this))"

section \<open>What the constructor builds, in closed form\<close>

text \<open>The mesh of iteration \<open>k\<close>, from the values of the random source it consumes.\<close>

definition sampled_mesh :: "ref \<Rightarrow> ref \<Rightarrow> (nat \<Rightarrow> real) \<Rightarrow> nat \<Rightarrow> obj" where
  "sampled_mesh g m rnd k =
     Mesh g m
       (Vector3 ((rnd (6 * k) * 2 - 1) * transformScale)
                ((rnd (6 * k + 1) * 2 - 1) * transformScale)
                ((rnd (6 * k + 2) * 2 - 1) * transformScale))
       (Vector3 (rnd (6 * k + 3) * Math_PI * 2)
                (rnd (6 * k + 4) * Math_PI * 2)
                (rnd (6 * k + 5) * Math_PI * 2))"

definition sampled_transform :: "(nat \<Rightarrow> real) \<Rightarrow> nat \<Rightarrow> vec3 \<times> vec3" where
  "sampled_transform rnd k =
     (Vector3 ((rnd (6 * k) * 2 - 1) * transformScale)
              ((rnd (6 * k + 1) * 2 - 1) * transformScale)
              ((rnd (6 * k + 2) * 2 - 1) * transformScale),
      Vector3 (rnd (6 * k + 3) * Math_PI * 2)
              (rnd (6 * k + 4) * Math_PI * 2)
              (rnd (6 * k + 5) * Math_PI * 2))"

text \<open>
  The position and rotation that one iteration of the loop computes from six consecutive
  values of the random source, the first of them at index \<open>i\<close>.
\<close>

definition transform_from :: "(nat \<Rightarrow> real) \<Rightarrow> nat \<Rightarrow> vec3 \<times> vec3" where
  "transform_from rnd i =
     (Vector3 ((rnd i * 2 - 1) * transformScale)
              ((rnd (i + 1) * 2 - 1) * transformScale)
              ((rnd (i + 2) * 2 - 1) * transformScale),
      Vector3 (rnd (i + 3) * Math_PI * 2)
              (rnd (i + 4) * Math_PI * 2)
              (rnd (i + 5) * Math_PI * 2))"

definition built_heap :: "nat \<Rightarrow> statics \<Rightarrow> world \<Rightarrow> obj list" where
  "built_heap n st w =
     (let l = length (heap w) in
      [WebGLRenderer True RENDERER_PARAM_clearColor
         (RENDERER_PARAM_width st, RENDERER_PARAM_height st),
       Scene ([l + 3, l + 4] @ [l + 7 ..< l + 7 + n] @ [l + 7 + n]),
       PerspectiveCamera
         \<lparr>fov = CAMERA_PARAM_fovy, aspect = CAMERA_PARAM_aspect st,
          near = CAMERA_PARAM_near, far = CAMERA_PARAM_far,
          position = CAMERA_PARAM_position,
          orientation = Some (CAMERA_PARAM_position, CAMERA_PARAM_lookAt),
          projectionMatrix =
            (CAMERA_PARAM_fovy, CAMERA_PARAM_aspect st, CAMERA_PARAM_near, CAMERA_PARAM_far)\<rparr>,
       DirectionalLight DIRECTIONAL_LIGHT_PARAM_color DIRECTIONAL_LIGHT_PARAM_intensity
         DIRECTIONAL_LIGHT_PARAM_position,
       AmbientLight AMBIENT_LIGHT_PARAM_color AMBIENT_LIGHT_PARAM_intensity,
       BoxGeometry 1 1 1,
       MeshPhysicalMaterial MATERIAL_PARAM]
      @ map (sampled_mesh (l + 5) (l + 6) (random_source w)) [0 ..< n]
      @ [Mesh (l + 5) (l + 6) (Vector3 0 0 0) (Vector3 0 0 0),
         OrbitControls (l + 2) l True 3])"

definition built_app :: "nat \<Rightarrow> world \<Rightarrow> ThreeApp" where
  "built_app n w =
     (let l = length (heap w) in
      \<lparr>renderer = l, scene = l + 1, camera = l + 2, directionalLight = l + 3,
       ambientLight = l + 4, geometry = l + 5, material = l + 6, controls = l + 8 + n,
       box = l + 7 + n, boxArray = [l + 7 ..< l + 7 + n]\<rparr>)"

definition built_world :: "nat \<Rightarrow> statics \<Rightarrow> world \<Rightarrow> world" where
  "built_world n st w =
     w\<lparr>heap := heap w @ built_heap n st w,
       random_source := (\<lambda>j. random_source w (j + 6 * n)),
       wrapper_children := wrapper_children w @ [length (heap w)],
       resize_listeners := resize_listeners w @ [ResizeListener (built_app n w)]\<rparr>"

text \<open>What the resize listener does to a camera: the new aspect, and the projection of it.\<close>

definition resized_camera :: "jsnum \<Rightarrow> camera_state \<Rightarrow> camera_state" where
  "resized_camera a c = c\<lparr>aspect := a, projectionMatrix := (fov c, a, near c, far c)\<rparr>"

section \<open>A concrete page\<close>

text \<open>
  A window of 800 by 600 pixels with nothing allocated and nothing registered, whose
  random source returns 0 every time; the class is defined and the application
  constructed in it.
\<close>

definition example_window :: world where
  "example_window =
     \<lparr>heap = [], random_source = (\<lambda>k. 0), innerWidth = 800, innerHeight = 600,
      wrapper_children = [], resize_listeners = [], animation_frame_callbacks = [],
      calls = []\<rparr>"

text \<open>
  Two more pages whose random source returns \<open>1/2, 1/3, 1/4, \<dots>\<close>: the second has a
  call logged and a child in the wrapper element already, and is otherwise the first.
\<close>

definition example_source :: "nat \<Rightarrow> real" where
  "example_source k = 1 / (real k + 2)"

definition example_window2 :: world where
  "example_window2 = example_window\<lparr>random_source := example_source\<rparr>"

definition example_window3 :: world where
  "example_window3 =
     example_window2\<lparr>wrapper_children := [7], calls := [Call_controls_update 0]\<rparr>"

definition example_built :: "ThreeApp \<times> world" where
  "example_built = ThreeApp_constructor (class_init example_window) example_window"

definition example_app :: ThreeApp where
  "example_app = fst example_built"

definition example_world :: world where
  "example_world = snd example_built"

section \<open>The loop and the constructor in closed form\<close>

lemma box_body_eq:
  assumes "s < length (heap w)"
  shows "box_body g m s (arr, w) =
     (arr @ [length (heap w)],
      w\<lparr>heap := (heap w)[s := obj_add (length (heap w)) (heap w ! s)]
                  @ [sampled_mesh g m (random_source w) 0],
        random_source := (\<lambda>j. random_source w (j + 6))\<rparr>)"
  using assms
  by (simp add: box_body_def new_Mesh_def alloc_def Math_random_def modify_def
      set_position_x_def set_position_y_def set_position_z_def
      set_rotation_x_def set_rotation_y_def set_rotation_z_def Scene_add_def
      sampled_mesh_def nth_append list_update_append eval_nat_numeral)

lemma sampled_mesh_shift:
  "sampled_mesh g m (\<lambda>j. rnd (j + 6)) k = sampled_mesh g m rnd (Suc k)"
  by (simp add: sampled_mesh_def add.commute add.left_commute)

lemma box_loop_eq:
  assumes "s < length (heap w)" and "heap w ! s = Scene cs"
  shows "box_loop i n g m s (arr, w) =
     (arr @ [length (heap w) ..< length (heap w) + (n - i)],
      w\<lparr>heap := (heap w)[s := Scene (cs @ [length (heap w) ..< length (heap w) + (n - i)])]
                  @ map (sampled_mesh g m (random_source w)) [0 ..< n - i],
        random_source := (\<lambda>j. random_source w (j + 6 * (n - i)))\<rparr>)"
  using assms
proof (induction "n - i" arbitrary: i arr w cs)
  case 0
  then have "\<not> i < n" by simp
  moreover have "(heap w)[s := Scene cs] = heap w"
    using "0.prems"(2) list_update_id[of "heap w" s] by simp
  ultimately show ?case by (subst box_loop.simps) simp
next
  case (Suc d)
  then have lt: "i < n" and d: "d = n - (i + 1)" by simp_all
  let ?l = "length (heap w)"
  let ?w1 = "w\<lparr>heap := (heap w)[s := obj_add ?l (heap w ! s)]
                  @ [sampled_mesh g m (random_source w) 0],
        random_source := (\<lambda>j. random_source w (j + 6))\<rparr>"
  have body: "box_body g m s (arr, w) = (arr @ [?l], ?w1)"
    using Suc.prems(1) by (rule box_body_eq)
  have s1: "s < length (heap ?w1)" using Suc.prems(1) by simp
  have h1: "heap ?w1 ! s = Scene (cs @ [?l])"
    using Suc.prems by (simp add: nth_append)
  have IH: "box_loop (i + 1) n g m s (arr @ [?l], ?w1) =
     ((arr @ [?l]) @ [length (heap ?w1) ..< length (heap ?w1) + (n - (i + 1))],
      ?w1\<lparr>heap := (heap ?w1)[s := Scene ((cs @ [?l]) @ [length (heap ?w1) ..< length (heap ?w1) + (n - (i + 1))])]
                  @ map (sampled_mesh g m (random_source ?w1)) [0 ..< n - (i + 1)],
        random_source := (\<lambda>j. random_source ?w1 (j + 6 * (n - (i + 1))))\<rparr>)"
    using Suc.hyps(1)[OF d s1 h1] .
  have nd: "n - i = Suc d" using Suc.hyps(2) by simp
  have d': "n - (i + 1) = d" using d by simp
  have len1: "length (heap ?w1) = Suc ?l" by simp
  have up: "[?l ..< ?l + Suc d] = ?l # [Suc ?l ..< Suc ?l + d]"
    by (simp add: upt_conv_Cons)
  have mp: "map (sampled_mesh g m (random_source w)) [0 ..< Suc d]
      = sampled_mesh g m (random_source w) 0
        # map (sampled_mesh g m (\<lambda>j. random_source w (j + 6))) [0 ..< d]"
    by (simp add: upt_conv_Cons map_Suc_upt[symmetric] sampled_mesh_shift del: upt_Suc)
  have rs: "(\<lambda>j. random_source w (j + 6 * d + 6)) = (\<lambda>j. random_source w (j + 6 * Suc d))"
    by (simp add: ac_simps)
  have "box_loop i n g m s (arr, w) = box_loop (i + 1) n g m s (arr @ [?l], ?w1)"
    using lt body by (subst box_loop.simps) simp
  also have "\<dots> = ((arr @ [?l]) @ [Suc ?l ..< Suc ?l + d],
      ?w1\<lparr>heap := (heap ?w1)[s := Scene ((cs @ [?l]) @ [Suc ?l ..< Suc ?l + d])]
                  @ map (sampled_mesh g m (random_source ?w1)) [0 ..< d],
        random_source := (\<lambda>j. random_source ?w1 (j + 6 * d))\<rparr>)"
    unfolding IH d' len1 ..
  also have "\<dots> = (arr @ [?l ..< ?l + Suc d],
      w\<lparr>heap := (heap w)[s := Scene (cs @ [?l ..< ?l + Suc d])]
                  @ map (sampled_mesh g m (random_source w)) [0 ..< Suc d],
        random_source := (\<lambda>j. random_source w (j + 6 * Suc d))\<rparr>)"
    unfolding up mp rs[symmetric] using Suc.prems(1)
    by (simp add: list_update_append del: upt_Suc)
  finally show ?case unfolding nd .
qed

lemma construct_eq: "construct n st w = (built_app n w, built_world n st w)"
  by (simp add: construct_def built_app_def built_heap_def built_world_def Let_def
      new_WebGLRenderer_def setClearColor_def setSize_def appendChild_def new_Scene_def
      new_PerspectiveCamera_def position_copy_def lookAt_def new_DirectionalLight_def
      Scene_add_def new_AmbientLight_def new_BoxGeometry_def new_MeshPhysicalMaterial_def
      new_Mesh_def new_OrbitControls_def addEventListener_resize_def set_autoRotate_def
      set_autoRotateSpeed_def alloc_def modify_def nth_append list_update_append
      box_loop_eq[where cs = "[length (heap w) + 3, length (heap w) + 4]"]
      eval_nat_numeral del: upt_Suc cong: let_weak_cong)

section \<open>The built heap\<close>

lemma length_built_heap: "length (built_heap n st w) = n + 9"
  by (simp add: built_heap_def Let_def)

lemma heap_built_world: "heap (built_world n st w) = heap w @ built_heap n st w"
  by (simp add: built_world_def)

lemma deref_built_old: "r < length (heap w) \<Longrightarrow> deref (built_world n st w) r = deref w r"
  by (simp add: deref_def heap_built_world nth_append)

lemma deref_built_new:
  "j < n + 9 \<Longrightarrow>
     deref (built_world n st w) (length (heap w) + j) = Some (built_heap n st w ! j)"
  by (simp add: deref_def heap_built_world length_built_heap nth_append)

lemma built_heap_fixed:
  "built_heap n st w ! 0 = WebGLRenderer True RENDERER_PARAM_clearColor
         (RENDERER_PARAM_width st, RENDERER_PARAM_height st)"
  "built_heap n st w ! 1 =
     Scene ([length (heap w) + 3, length (heap w) + 4]
            @ [length (heap w) + 7 ..< length (heap w) + 7 + n] @ [length (heap w) + 7 + n])"
  "built_heap n st w ! 2 = PerspectiveCamera
         \<lparr>fov = CAMERA_PARAM_fovy, aspect = CAMERA_PARAM_aspect st,
          near = CAMERA_PARAM_near, far = CAMERA_PARAM_far,
          position = CAMERA_PARAM_position,
          orientation = Some (CAMERA_PARAM_position, CAMERA_PARAM_lookAt),
          projectionMatrix =
            (CAMERA_PARAM_fovy, CAMERA_PARAM_aspect st, CAMERA_PARAM_near, CAMERA_PARAM_far)\<rparr>"
  "built_heap n st w ! 3 = DirectionalLight DIRECTIONAL_LIGHT_PARAM_color
         DIRECTIONAL_LIGHT_PARAM_intensity DIRECTIONAL_LIGHT_PARAM_position"
  "built_heap n st w ! 4 = AmbientLight AMBIENT_LIGHT_PARAM_color AMBIENT_LIGHT_PARAM_intensity"
  "built_heap n st w ! 5 = BoxGeometry 1 1 1"
  "built_heap n st w ! 6 = MeshPhysicalMaterial MATERIAL_PARAM"
  by (simp_all add: built_heap_def Let_def eval_nat_numeral del: upt_Suc)

lemma built_heap_sampled:
  "k < n \<Longrightarrow> built_heap n st w ! (7 + k)
     = sampled_mesh (length (heap w) + 5) (length (heap w) + 6) (random_source w) k"
  by (simp add: built_heap_def Let_def nth_append del: upt_Suc)

lemma built_heap_box:
  "built_heap n st w ! (7 + n)
     = Mesh (length (heap w) + 5) (length (heap w) + 6) (Vector3 0 0 0) (Vector3 0 0 0)"
  by (simp add: built_heap_def Let_def nth_append del: upt_Suc)

lemma built_heap_controls:
  "built_heap n st w ! (8 + n)
     = OrbitControls (length (heap w) + 2) (length (heap w)) True 3"
  by (simp add: built_heap_def Let_def nth_append del: upt_Suc)

lemma built_app_fields:
  "renderer (built_app n w) = length (heap w) + 0"
  "scene (built_app n w) = length (heap w) + 1"
  "camera (built_app n w) = length (heap w) + 2"
  "directionalLight (built_app n w) = length (heap w) + 3"
  "ambientLight (built_app n w) = length (heap w) + 4"
  "geometry (built_app n w) = length (heap w) + 5"
  "material (built_app n w) = length (heap w) + 6"
  "box (built_app n w) = length (heap w) + (7 + n)"
  "controls (built_app n w) = length (heap w) + (8 + n)"
  "boxArray (built_app n w) = map (\<lambda>k. length (heap w) + (7 + k)) [0 ..< n]"
proof -
  have "[length (heap w) + 7 ..< length (heap w) + 7 + n]
          = map (\<lambda>k. length (heap w) + (7 + k)) [0 ..< n]"
    using map_add_upt[of "length (heap w) + 7" n] by (simp add: ac_simps)
  then show "boxArray (built_app n w) = map (\<lambda>k. length (heap w) + (7 + k)) [0 ..< n]"
    by (simp add: built_app_def Let_def)
qed (simp_all add: built_app_def Let_def)

lemma deref_built_app:
  "deref (built_world n st w) (renderer (built_app n w)) = Some (built_heap n st w ! 0)"
  "deref (built_world n st w) (scene (built_app n w)) = Some (built_heap n st w ! 1)"
  "deref (built_world n st w) (camera (built_app n w)) = Some (built_heap n st w ! 2)"
  "deref (built_world n st w) (directionalLight (built_app n w)) = Some (built_heap n st w ! 3)"
  "deref (built_world n st w) (ambientLight (built_app n w)) = Some (built_heap n st w ! 4)"
  "deref (built_world n st w) (geometry (built_app n w)) = Some (built_heap n st w ! 5)"
  "deref (built_world n st w) (material (built_app n w)) = Some (built_heap n st w ! 6)"
  "deref (built_world n st w) (box (built_app n w)) = Some (built_heap n st w ! (7 + n))"
  "deref (built_world n st w) (controls (built_app n w)) = Some (built_heap n st w ! (8 + n))"
  unfolding built_app_fields by (rule deref_built_new, simp)+

lemma deref_built_sampled:
  "k < n \<Longrightarrow> deref (built_world n st w) (length (heap w) + (7 + k))
     = Some (sampled_mesh (length (heap w) + 5) (length (heap w) + 6) (random_source w) k)"
  by (simp add: deref_built_new built_heap_sampled)

section \<open>The application after construction\<close>

lemma deref_built_values:
  "deref (built_world n st w) (renderer (built_app n w))
     = Some (WebGLRenderer True RENDERER_PARAM_clearColor
         (RENDERER_PARAM_width st, RENDERER_PARAM_height st))"
  "deref (built_world n st w) (scene (built_app n w))
     = Some (Scene ([length (heap w) + 3, length (heap w) + 4]
            @ [length (heap w) + 7 ..< length (heap w) + 7 + n] @ [length (heap w) + 7 + n]))"
  "deref (built_world n st w) (camera (built_app n w))
     = Some (PerspectiveCamera
         \<lparr>fov = CAMERA_PARAM_fovy, aspect = CAMERA_PARAM_aspect st,
          near = CAMERA_PARAM_near, far = CAMERA_PARAM_far,
          position = CAMERA_PARAM_position,
          orientation = Some (CAMERA_PARAM_position, CAMERA_PARAM_lookAt),
          projectionMatrix =
            (CAMERA_PARAM_fovy, CAMERA_PARAM_aspect st, CAMERA_PARAM_near, CAMERA_PARAM_far)\<rparr>)"
  "deref (built_world n st w) (directionalLight (built_app n w))
     = Some (DirectionalLight DIRECTIONAL_LIGHT_PARAM_color
         DIRECTIONAL_LIGHT_PARAM_intensity DIRECTIONAL_LIGHT_PARAM_position)"
  "deref (built_world n st w) (ambientLight (built_app n w))
     = Some (AmbientLight AMBIENT_LIGHT_PARAM_color AMBIENT_LIGHT_PARAM_intensity)"
  "deref (built_world n st w) (geometry (built_app n w)) = Some (BoxGeometry 1 1 1)"
  "deref (built_world n st w) (material (built_app n w))
     = Some (MeshPhysicalMaterial MATERIAL_PARAM)"
  "deref (built_world n st w) (box (built_app n w))
     = Some (Mesh (length (heap w) + 5) (length (heap w) + 6) (Vector3 0 0 0) (Vector3 0 0 0))"
  "deref (built_world n st w) (controls (built_app n w))
     = Some (OrbitControls (length (heap w) + 2) (length (heap w)) True 3)"
  unfolding deref_built_app built_heap_fixed built_heap_box built_heap_controls by (rule refl)+

lemma built_kinds:
  "has_kind is_WebGLRenderer (built_world n st w) (renderer (built_app n w))"
  "has_kind is_Scene (built_world n st w) (scene (built_app n w))"
  "has_kind is_PerspectiveCamera (built_world n st w) (camera (built_app n w))"
  "has_kind is_light (built_world n st w) (directionalLight (built_app n w))"
  "has_kind is_light (built_world n st w) (ambientLight (built_app n w))"
  "has_kind is_BoxGeometry (built_world n st w) (geometry (built_app n w))"
  "has_kind is_MeshPhysicalMaterial (built_world n st w) (material (built_app n w))"
  "has_kind is_OrbitControls (built_world n st w) (controls (built_app n w))"
  "has_kind is_Mesh (built_world n st w) (box (built_app n w))"
  by (simp_all add: has_kind_def deref_built_values)

lemma built_not_mesh:
  "\<not> has_kind is_Mesh (built_world n st w) (directionalLight (built_app n w))"
  "\<not> has_kind is_Mesh (built_world n st w) (ambientLight (built_app n w))"
  "\<not> has_kind is_light (built_world n st w) (box (built_app n w))"
  by (simp_all add: has_kind_def deref_built_values)

lemma built_population_kind:
  assumes "r \<in> set (boxArray (built_app n w))"
  shows "has_kind is_Mesh (built_world n st w) r" and "\<not> has_kind is_light (built_world n st w) r"
  using assms
  by (auto simp: built_app_fields has_kind_def deref_built_sampled sampled_mesh_def)

lemma built_population_wf:
  "list_all (has_kind is_Mesh (built_world n st w)) (boxArray (built_app n w))"
  by (simp add: list_all_iff built_population_kind)

lemma built_wf: "ThreeApp_wf (built_app n w) (built_world n st w)"
  by (simp add: ThreeApp_wf_def built_kinds built_population_wf)

lemma length_built_population: "length (boxArray (built_app n w)) = n"
  by (simp add: built_app_fields)

lemma built_scene_children:
  "scene_children (built_world n st w) (scene (built_app n w))
     = [directionalLight (built_app n w), ambientLight (built_app n w)]
       @ boxArray (built_app n w) @ [box (built_app n w)]"
  by (simp add: scene_children_def deref_built_values)
     (simp add: built_app_def Let_def)

lemma built_scene_distinct:
  "distinct (scene_children (built_world n st w) (scene (built_app n w)))"
  by (simp add: built_scene_children) (simp add: built_app_def Let_def)

lemma built_scene_meshes:
  "filter (has_kind is_Mesh (built_world n st w))
      (scene_children (built_world n st w) (scene (built_app n w)))
     = boxArray (built_app n w) @ [box (built_app n w)]"
  by (simp add: built_scene_children built_not_mesh built_kinds built_population_kind)

lemma built_scene_lights:
  "filter (has_kind is_light (built_world n st w))
      (scene_children (built_world n st w) (scene (built_app n w)))
     = [directionalLight (built_app n w), ambientLight (built_app n w)]"
  by (simp add: built_scene_children built_not_mesh built_kinds built_population_kind)

lemma example_eq:
  "example_app = built_app boxCount example_window"
  "example_world = built_world boxCount (class_init example_window) example_window"
  by (simp_all add: example_app_def example_world_def example_built_def
      ThreeApp_constructor_def construct_eq)

lemma example_constructed:
  "ThreeApp_constructor (class_init example_window) example_window = (example_app, example_world)"
  by (simp add: example_app_def example_world_def example_built_def)

text \<open>
  C2, as stated: the constructed scene has exactly 102 objects, 100 of them meshes. At the
  concrete page it has neither 102 objects nor 100 meshes: the standalone mesh
  \<open>this.box\<close> is added after the population.
\<close>

theorem scene_census_counterexample:
  "length (scene_children example_world (scene example_app)) \<noteq> 102
   \<and> length (filter (has_kind is_Mesh example_world)
                (scene_children example_world (scene example_app))) \<noteq> 100"
  unfolding example_eq built_scene_meshes
  by (simp add: built_scene_children length_built_population boxCount_def)

text \<open>
  C2, amended: after construction the scene holds exactly 103 distinct objects, in the
  order they were added: the directional light, the ambient light, the 100 meshes of the
  population and the standalone mesh; two of them are lights and 101 are meshes.
\<close>

theorem scene_census:
  assumes "ThreeApp_constructor st w = (app, w')"
  shows "scene_children w' (scene app)
           = [directionalLight app, ambientLight app] @ boxArray app @ [box app]
         \<and> length (boxArray app) = 100
         \<and> length (scene_children w' (scene app)) = 103
         \<and> distinct (scene_children w' (scene app))
         \<and> filter (has_kind is_light w') (scene_children w' (scene app))
             = [directionalLight app, ambientLight app]
         \<and> length (filter (has_kind is_Mesh w') (scene_children w' (scene app))) = 101"
proof -
  from assms have app: "app = built_app boxCount w" and w': "w' = built_world boxCount st w"
    by (simp_all add: ThreeApp_constructor_def construct_eq)
  show ?thesis
    unfolding app w' built_scene_meshes built_scene_lights
    using built_scene_distinct[of boxCount st w]
    by (simp add: built_scene_children length_built_population boxCount_def)
qed

theorem scene_census_witness:
  "length (scene_children example_world (scene example_app)) = 103
   \<and> length (filter (has_kind is_Mesh example_world)
                (scene_children example_world (scene example_app))) = 101
   \<and> length (boxArray example_app) = 100"
  using scene_census[OF example_constructed] by blast

section \<open>Resources and transforms of the constructed meshes\<close>

lemma created_built: "created w (built_world n st w) = built_heap n st w"
  by (simp add: created_def heap_built_world)

lemma sampled_mesh_kind:
  "is_Mesh (sampled_mesh g m rnd k)" "\<not> is_BoxGeometry (sampled_mesh g m rnd k)"
  "\<not> is_MeshPhysicalMaterial (sampled_mesh g m rnd k)"
  by (simp_all add: sampled_mesh_def)

lemma built_heap_geometries:
  "filter is_BoxGeometry (built_heap n st w) = [BoxGeometry 1 1 1]"
  by (simp add: built_heap_def Let_def filter_map o_def sampled_mesh_kind del: upt_Suc)

lemma built_heap_materials:
  "filter is_MeshPhysicalMaterial (built_heap n st w) = [MeshPhysicalMaterial MATERIAL_PARAM]"
  by (simp add: built_heap_def Let_def filter_map o_def sampled_mesh_kind del: upt_Suc)

lemma built_heap_meshes: "length (filter is_Mesh (built_heap n st w)) = n + 1"
  by (simp add: built_heap_def Let_def filter_map o_def sampled_mesh_kind del: upt_Suc)

lemma built_fresh:
  "deref w (geometry (built_app n w)) = None" "deref w (material (built_app n w)) = None"
  "deref w (box (built_app n w)) = None"
  by (simp_all add: deref_def built_app_fields)

lemma built_population_resources:
  "map (mesh_resources (built_world n st w)) (boxArray (built_app n w))
     = replicate n (Some (geometry (built_app n w), material (built_app n w)))"
proof -
  have "map (mesh_resources (built_world n st w)) (boxArray (built_app n w))
          = map (\<lambda>k. Some (length (heap w) + 5, length (heap w) + 6)) [0 ..< n]"
    by (simp add: built_app_fields mesh_resources_def deref_built_sampled sampled_mesh_def)
  then show ?thesis
    by (simp add: map_replicate_const built_app_fields)
qed

lemma built_box_resources:
  "mesh_resources (built_world n st w) (box (built_app n w))
     = Some (geometry (built_app n w), material (built_app n w))"
  by (simp add: mesh_resources_def deref_built_values) (simp add: built_app_fields)

lemma built_box_not_in_population: "box (built_app n w) \<notin> set (boxArray (built_app n w))"
  by (simp add: built_app_def Let_def)

lemma built_population_transforms:
  "population_transforms (built_app n w, built_world n st w)
     = map (\<lambda>k. Some (sampled_transform (random_source w) k)) [0 ..< n]"
  by (simp add: population_transforms_def built_app_fields mesh_transform_def
      deref_built_sampled sampled_mesh_def sampled_transform_def)

lemma constructed_built:
  assumes "construct n st w = (app, w')"
  shows "app = built_app n w" and "w' = built_world n st w"
  using assms by (simp_all add: construct_eq)

text \<open>
  C3: whatever the population size \<open>n\<close>, the constructor creates exactly one box geometry
  and exactly one material, both new; it creates \<open>n + 1\<close> meshes, and every mesh of the
  scene refers to that geometry and that material. \<open>ThreeApp_constructor\<close> is the case
  \<open>n = boxCount\<close>.
\<close>

theorem one_geometry_one_material:
  assumes "construct n st w = (app, w')"
  shows "length (filter is_BoxGeometry (created w w')) = 1
         \<and> length (filter is_MeshPhysicalMaterial (created w w')) = 1
         \<and> deref w (geometry app) = None \<and> deref w (material app) = None
         \<and> deref w' (geometry app) = Some (BoxGeometry 1 1 1)
         \<and> deref w' (material app) = Some (MeshPhysicalMaterial MATERIAL_PARAM)
         \<and> length (filter is_Mesh (created w w')) = n + 1
         \<and> map (mesh_resources w')
               (filter (has_kind is_Mesh w') (scene_children w' (scene app)))
             = replicate (n + 1) (Some (geometry app, material app))
         \<and> ThreeApp_constructor st w = construct boxCount st w"
  unfolding constructed_built[OF assms] created_built built_scene_meshes
  by (simp add: built_heap_geometries built_heap_materials built_heap_meshes built_fresh
      deref_built_values built_population_resources built_box_resources
      ThreeApp_constructor_def replicate_append_same)

theorem one_geometry_one_material_witness:
  "length (filter is_BoxGeometry (created example_window example_world)) = 1
   \<and> length (filter is_MeshPhysicalMaterial (created example_window example_world)) = 1
   \<and> length (filter is_Mesh (created example_window example_world)) = 101
   \<and> map (mesh_resources example_world)
         (filter (has_kind is_Mesh example_world)
            (scene_children example_world (scene example_app)))
       = replicate 101 (Some (geometry example_app, material example_app))"
proof -
  have h: "construct boxCount (class_init example_window) example_window
             = (example_app, example_world)"
    using example_constructed by (simp add: ThreeApp_constructor_def)
  show ?thesis
    using one_geometry_one_material[OF h] by (simp add: boxCount_def)
qed

text \<open>
  C8: beyond the 100 meshes of the population the constructor creates exactly one more
  mesh, \<open>this.box\<close>: it is new, refers to the shared geometry and material, keeps the
  position and rotation a new mesh has (the origin, no rotation), and is the last object
  added to the scene.
\<close>

theorem standalone_mesh:
  assumes "ThreeApp_constructor st w = (app, w')"
  shows "deref w' (box app)
           = Some (Mesh (geometry app) (material app) (Vector3 0 0 0) (Vector3 0 0 0))
         \<and> deref w (box app) = None
         \<and> box app \<notin> set (boxArray app)
         \<and> length (boxArray app) = 100
         \<and> length (filter is_Mesh (created w w')) = 101
         \<and> filter (has_kind is_Mesh w') (scene_children w' (scene app))
             = boxArray app @ [box app]
         \<and> last (scene_children w' (scene app)) = box app"
  unfolding constructed_built[OF assms[unfolded ThreeApp_constructor_def]] created_built
    built_scene_meshes
  by (simp add: deref_built_values built_fresh built_box_not_in_population
      length_built_population built_heap_meshes built_scene_children boxCount_def)
     (simp add: built_app_fields)

theorem standalone_mesh_witness:
  "deref example_world (box example_app)
     = Some (Mesh (geometry example_app) (material example_app) (Vector3 0 0 0) (Vector3 0 0 0))
   \<and> box example_app \<notin> set (boxArray example_app)
   \<and> last (scene_children example_world (scene example_app)) = box example_app"
  using standalone_mesh[OF example_constructed] by blast

section \<open>Ranges and reproducibility of the sampled transforms\<close>

lemma sampled_position_range:
  assumes "0 \<le> r" and "r < 1"
  shows "- 6 \<le> (r * 2 - 1) * transformScale" and "(r * 2 - 1) * transformScale \<le> 6"
  using assms by (simp_all add: transformScale_def)

lemma sampled_rotation_range:
  assumes "0 \<le> r" and "r < 1"
  shows "0 \<le> r * Math_PI * 2" and "r * Math_PI * 2 < 2 * pi"
proof -
  show "0 \<le> r * Math_PI * 2" using assms(1) by (simp add: Math_PI_def)
  have "r * pi < 1 * pi" using assms(2) pi_gt_zero by (rule mult_strict_right_mono)
  then show "r * Math_PI * 2 < 2 * pi" by (simp add: Math_PI_def)
qed

lemma sampled_transform_in_range:
  assumes "\<forall>k. 0 \<le> rnd k \<and> rnd k < 1"
  shows "transform_in_range (Some (sampled_transform rnd j))"
  using assms
  by (simp add: sampled_transform_def position_in_range_def rotation_in_range_def
      sampled_position_range sampled_rotation_range)

lemma sampled_transform_from: "sampled_transform rnd k = transform_from rnd (6 * k)"
  by (simp add: sampled_transform_def transform_from_def)

lemma sampled_offsets_apart: "sorted_wrt (\<lambda>i j. i + 6 \<le> j) (map (\<lambda>k. 6 * k) [0 ..< n])"
proof -
  have "sorted_wrt (\<lambda>i j. 6 * i + 6 \<le> 6 * j) [0 ..< n]"
    by (rule sorted_wrt_mono_rel[OF _ sorted_wrt_upt]) simp
  then show ?thesis by (simp add: sorted_wrt_map)
qed

lemma built_heap_same_source:
  assumes "random_source w1 = random_source w2" and "length (heap w1) = length (heap w2)"
  shows "built_heap n st w1 = built_heap n st w2"
  using assms by (simp add: built_heap_def)

lemma built_app_same_start:
  assumes "length (heap w1) = length (heap w2)"
  shows "built_app n w1 = built_app n w2"
  using assms by (simp add: built_app_def)

text \<open>
  C4: when every value of the random source lies in \<open>[0, 1)\<close>, each of the 100 meshes of
  the population has its three position components in \<open>[-6, 6]\<close> and its three rotation
  components in \<open>[0, 2\<pi>)\<close>.
\<close>

theorem population_in_range:
  assumes "\<forall>k. 0 \<le> random_source w k \<and> random_source w k < 1"
    and "ThreeApp_constructor st w = (app, w')"
  shows "list_all transform_in_range (population_transforms (app, w'))
         \<and> length (population_transforms (app, w')) = 100"
  unfolding constructed_built[OF assms(2)[unfolded ThreeApp_constructor_def]]
    built_population_transforms
  using sampled_transform_in_range[OF assms(1)]
  by (simp add: list_all_iff boxCount_def)

theorem population_in_range_witness:
  "list_all transform_in_range (population_transforms (example_app, example_world))
   \<and> length (population_transforms (example_app, example_world)) = 100"
proof -
  have "\<forall>k. 0 \<le> random_source example_window k \<and> random_source example_window k < 1"
    by (simp add: example_window_def)
  then show ?thesis
    using example_constructed by (rule population_in_range)
qed

text \<open>
  C9: two constructions whose random sources return the same sequence of values produce the
  same sequence of position and rotation triples for the population, whatever else differs
  between the two pages. The sequence has 100 entries, one for each mesh in the order of
  \<open>boxArray\<close>; each is computed from six consecutive values of the source, and the six
  values of a mesh come after those of the mesh before it. When the class parameters and
  the number of objects allocated before are the same too, the two constructions allocate
  the same objects and yield the same application fields: nothing else enters the
  construction.
\<close>

theorem placement_reproducible:
  assumes "random_source w1 = random_source w2"
  shows "population_transforms (ThreeApp_constructor st1 w1)
           = population_transforms (ThreeApp_constructor st2 w2)
         \<and> length (population_transforms (ThreeApp_constructor st1 w1)) = 100
         \<and> (\<exists>offsets. length offsets = 100 \<and> sorted_wrt (\<lambda>i j. i + 6 \<le> j) offsets
               \<and> population_transforms (ThreeApp_constructor st1 w1)
                   = map (\<lambda>i. Some (transform_from (random_source w1) i)) offsets)
         \<and> (st1 = st2 \<and> length (heap w1) = length (heap w2) \<longrightarrow>
              fst (ThreeApp_constructor st1 w1) = fst (ThreeApp_constructor st2 w2)
              \<and> created w1 (snd (ThreeApp_constructor st1 w1))
                  = created w2 (snd (ThreeApp_constructor st2 w2)))"
proof -
  let ?t1 = "population_transforms (ThreeApp_constructor st1 w1)"
  let ?t2 = "population_transforms (ThreeApp_constructor st2 w2)"
  have t1: "?t1 = map (\<lambda>k. Some (sampled_transform (random_source w1) k)) [0 ..< boxCount]"
    by (simp add: ThreeApp_constructor_def construct_eq built_population_transforms)
  have t2: "?t2 = map (\<lambda>k. Some (sampled_transform (random_source w2) k)) [0 ..< boxCount]"
    by (simp add: ThreeApp_constructor_def construct_eq built_population_transforms)
  have same: "?t1 = ?t2"
    unfolding t1 t2 assms ..
  have len: "length ?t1 = 100"
    unfolding t1 by (simp add: boxCount_def)
  have "length (map (\<lambda>k. 6 * k) [0 ..< boxCount]) = 100"
    by (simp add: boxCount_def)
  moreover have "sorted_wrt (\<lambda>i j. i + 6 \<le> j) (map (\<lambda>k. 6 * k) [0 ..< boxCount])"
    by (rule sampled_offsets_apart)
  moreover have "?t1 = map (\<lambda>i. Some (transform_from (random_source w1) i))
                         (map (\<lambda>k. 6 * k) [0 ..< boxCount])"
    unfolding t1 by (simp add: sampled_transform_from o_def)
  ultimately have drawn: "\<exists>offsets. length offsets = 100
      \<and> sorted_wrt (\<lambda>i j. i + 6 \<le> j) offsets
      \<and> ?t1 = map (\<lambda>i. Some (transform_from (random_source w1) i)) offsets"
    by blast
  have whole: "st1 = st2 \<and> length (heap w1) = length (heap w2) \<longrightarrow>
      fst (ThreeApp_constructor st1 w1) = fst (ThreeApp_constructor st2 w2)
      \<and> created w1 (snd (ThreeApp_constructor st1 w1))
          = created w2 (snd (ThreeApp_constructor st2 w2))"
    using built_heap_same_source[OF assms, of boxCount st1]
      built_app_same_start[of w1 w2 boxCount]
    by (auto simp add: ThreeApp_constructor_def construct_eq created_built)
  from same len drawn whole show ?thesis by blast
qed

theorem placement_reproducible_witness:
  "population_transforms (ThreeApp_constructor (class_init example_window2) example_window2)
     = population_transforms (ThreeApp_constructor (class_init example_window3) example_window3)
   \<and> length (population_transforms
        (ThreeApp_constructor (class_init example_window2) example_window2)) = 100
   \<and> fst (ThreeApp_constructor (class_init example_window2) example_window2)
       = fst (ThreeApp_constructor (class_init example_window3) example_window3)
   \<and> created example_window2
         (snd (ThreeApp_constructor (class_init example_window2) example_window2))
       = created example_window3
           (snd (ThreeApp_constructor (class_init example_window3) example_window3))
   \<and> example_window2 \<noteq> example_window3
   \<and> population_transforms
        (ThreeApp_constructor (class_init example_window2) example_window2) ! 0
       \<noteq> population_transforms
           (ThreeApp_constructor (class_init example_window2) example_window2) ! 1"
proof -
  have "population_transforms
          (ThreeApp_constructor (class_init example_window2) example_window2)
        = map (\<lambda>k. Some (sampled_transform example_source k)) [0 ..< 100]"
    by (simp add: ThreeApp_constructor_def construct_eq built_population_transforms
        boxCount_def example_window2_def)
  then have varied: "population_transforms
        (ThreeApp_constructor (class_init example_window2) example_window2) ! 0
       \<noteq> population_transforms
           (ThreeApp_constructor (class_init example_window2) example_window2) ! 1"
    by (simp add: sampled_transform_def example_source_def transformScale_def del: upt_Suc)
  have src: "random_source example_window2 = random_source example_window3"
    by (simp add: example_window3_def)
  have st: "class_init example_window2 = class_init example_window3"
    by (simp add: class_init_def example_window3_def)
  have hp: "length (heap example_window2) = length (heap example_window3)"
    by (simp add: example_window3_def)
  have "calls example_window2 \<noteq> calls example_window3"
    by (simp add: example_window3_def example_window2_def example_window_def)
  then have ne: "example_window2 \<noteq> example_window3" by auto
  show ?thesis
    unfolding st[symmetric]
    using placement_reproducible[OF src, of "class_init example_window2"
        "class_init example_window2"] hp ne varied
    by blast
qed

section \<open>\<open>render\<close> and the frame callbacks\<close>

lemma render_eq:
  "render this w =
     w\<lparr>animation_frame_callbacks := animation_frame_callbacks w @ [RenderCallback this],
       calls := calls w @ [Call_requestAnimationFrame (RenderCallback this),
                           Call_controls_update (controls this),
                           Call_renderer_render (renderer this) (scene this) (camera this)]\<rparr>"
  by (simp add: render_def requestAnimationFrame_def OrbitControls_update_def
      WebGLRenderer_render_def)

lemma run_callbacks_pending:
  "animation_frame_callbacks (fold run_callback cbs w) = animation_frame_callbacks w @ cbs"
proof (induction cbs arbitrary: w)
  case Nil
  show ?case by simp
next
  case (Cons cb cbs)
  obtain a where cb: "cb = RenderCallback a" by (cases cb)
  show ?case by (simp add: Cons.IH cb render_eq)
qed

lemma animation_frame_pending:
  "animation_frame_callbacks (animation_frame w) = animation_frame_callbacks w"
  by (simp add: animation_frame_def run_callbacks_pending)

section \<open>The resize listener\<close>

lemma resize_listener_eq:
  "resize_listener this w =
     w\<lparr>heap := ((heap w)[renderer this :=
                    obj_setSize (innerWidth w) (innerHeight w) (heap w ! renderer this)])
                 [camera this :=
                    obj_camera (resized_camera (js_div (innerWidth w) (innerHeight w)))
                      (((heap w)[renderer this :=
                          obj_setSize (innerWidth w) (innerHeight w) (heap w ! renderer this)])
                       ! camera this)],
       calls := calls w @ [Call_updateProjectionMatrix (camera this)]\<rparr>"
proof -
  have cam: "obj_camera (\<lambda>c. c\<lparr>projectionMatrix := current_projection c\<rparr>)
               (obj_camera (\<lambda>c. c\<lparr>aspect := a\<rparr>) ob) = obj_camera (resized_camera a) ob"
    for a ob
    by (cases ob) (simp_all add: resized_camera_def current_projection_def)
  show ?thesis
    by (cases "camera this < length (heap w)")
       (simp_all add: resize_listener_def setSize_def set_aspect_def updateProjectionMatrix_def
          modify_def Let_def cam list_update_beyond)
qed

lemma resize_listener_pending:
  "animation_frame_callbacks (resize_listener this w) = animation_frame_callbacks w"
  by (simp add: resize_listener_eq)

lemma run_listeners_pending:
  "animation_frame_callbacks (fold run_listener ls w) = animation_frame_callbacks w"
proof (induction ls arbitrary: w)
  case Nil
  show ?case by simp
next
  case (Cons l ls)
  obtain a where l: "l = ResizeListener a" by (cases l)
  show ?case by (simp add: Cons.IH l resize_listener_pending)
qed

lemma step_pending: "animation_frame_callbacks (step e w) = animation_frame_callbacks w"
  by (cases e) (simp_all add: animation_frame_pending window_resize_def run_listeners_pending)

lemma run_pending: "animation_frame_callbacks (run es w) = animation_frame_callbacks w"
  unfolding run_def by (induction es arbitrary: w) (simp_all add: step_pending)

lemma built_world_pending:
  "animation_frame_callbacks (built_world n st w) = animation_frame_callbacks w"
  by (simp add: built_world_def)

text \<open>
  C1, as stated: in a state reached from the first \<open>render()\<close>, a second call of
  \<open>render()\<close> leaves exactly one pending frame callback. On the concrete page, right
  after the first call, the second call leaves two.
\<close>

theorem second_render_counterexample:
  "length (animation_frame_callbacks (render example_app example_world)) = 1
   \<and> length (animation_frame_callbacks
        (render example_app (render example_app example_world))) = 2
   \<and> length (animation_frame_callbacks
        (render example_app (render example_app example_world))) \<noteq> 1"
proof -
  have "animation_frame_callbacks example_world = []"
    by (simp add: example_eq built_world_pending) (simp add: example_window_def)
  then show ?thesis by (simp add: render_eq)
qed

text \<open>
  C1, amended: \<open>render\<close> has no guard; every call registers one more frame callback, and
  a frame or a resize leaves the number of pending callbacks as it was. On a page with no
  callback pending when it loads, every state reached by frames and resizes after the
  \<open>DOMContentLoaded\<close> listener (construction and the first \<open>render()\<close>) has exactly
  one pending callback, a second \<open>render()\<close> there leaves exactly two, and two remain
  pending in every state reached after that.
\<close>

theorem render_registers_one_more:
  assumes "animation_frame_callbacks w = []"
    and "on_DOMContentLoaded st w = (app, s)"
  shows "animation_frame_callbacks (run es s) = [RenderCallback app]
         \<and> animation_frame_callbacks (render app (run es s))
             = [RenderCallback app, RenderCallback app]
         \<and> length (animation_frame_callbacks (run es' (render app (run es s)))) = 2
         \<and> length (animation_frame_callbacks (render this v))
             = length (animation_frame_callbacks v) + 1"
proof -
  have s: "s = render app (built_world boxCount st w)"
    using assms(2)
    by (auto simp add: on_DOMContentLoaded_def ThreeApp_constructor_def construct_eq)
  have one: "animation_frame_callbacks (run es s) = [RenderCallback app]"
    unfolding s by (simp add: run_pending render_eq built_world_pending assms(1))
  have two: "animation_frame_callbacks (render app (run es s))
               = [RenderCallback app, RenderCallback app]"
    by (simp add: render_eq[of app "run es s"] one)
  have three: "length (animation_frame_callbacks (run es' (render app (run es s)))) = 2"
    unfolding run_pending[of es'] two by simp
  have more: "length (animation_frame_callbacks (render this v))
                = length (animation_frame_callbacks v) + 1"
    by (simp add: render_eq)
  from one two three more show ?thesis by blast
qed

theorem render_registers_one_more_witness:
  "animation_frame_callbacks
      (run [AnimationFrame, WindowResize 1024 768, AnimationFrame]
         (render example_app example_world))
     = [RenderCallback example_app]
   \<and> animation_frame_callbacks
      (render example_app
        (run [AnimationFrame, WindowResize 1024 768, AnimationFrame]
           (render example_app example_world)))
     = [RenderCallback example_app, RenderCallback example_app]"
proof -
  have "animation_frame_callbacks example_window = []" by (simp add: example_window_def)
  moreover have "on_DOMContentLoaded (class_init example_window) example_window
                   = (example_app, render example_app example_world)"
    by (simp add: on_DOMContentLoaded_def example_constructed)
  ultimately show ?thesis
    using render_registers_one_more by blast
qed

text \<open>
  C5: every call of \<open>render\<close>, and so every iteration of the loop (a frame that runs the
  pending callback), makes exactly three calls in this order: it schedules the next
  iteration, updates the interaction controller once, and draws the scene through the
  camera once. One callback is pending again afterwards.
\<close>

theorem render_iteration_order:
  "calls (render this w) =
     calls w @ [Call_requestAnimationFrame (RenderCallback this),
                Call_controls_update (controls this),
                Call_renderer_render (renderer this) (scene this) (camera this)]
   \<and> animation_frame_callbacks (render this w)
       = animation_frame_callbacks w @ [RenderCallback this]
   \<and> calls (animation_frame (w\<lparr>animation_frame_callbacks := [RenderCallback this]\<rparr>)) =
     calls w @ [Call_requestAnimationFrame (RenderCallback this),
                Call_controls_update (controls this),
                Call_renderer_render (renderer this) (scene this) (camera this)]
   \<and> animation_frame_callbacks
         (animation_frame (w\<lparr>animation_frame_callbacks := [RenderCallback this]\<rparr>))
       = [RenderCallback this]"
  by (simp add: render_eq animation_frame_def)

section \<open>What a resize changes and what it keeps\<close>

lemma resize_to_eq:
  "resize_to this wd ht w =
     w\<lparr>innerWidth := wd, innerHeight := ht,
       heap := ((heap w)[renderer this := obj_setSize wd ht (heap w ! renderer this)])
                 [camera this :=
                    obj_camera (resized_camera (js_div wd ht))
                      (((heap w)[renderer this := obj_setSize wd ht (heap w ! renderer this)])
                       ! camera this)],
       calls := calls w @ [Call_updateProjectionMatrix (camera this)]\<rparr>"
  by (simp add: resize_to_def resize_listener_eq)

lemma length_heap_resize_to: "length (heap (resize_to this wd ht w)) = length (heap w)"
  by (simp add: resize_to_eq)

lemma deref_resize_other:
  assumes "r \<noteq> renderer this" and "r \<noteq> camera this"
  shows "deref (resize_to this wd ht w) r = deref w r"
  using assms by (simp add: deref_def resize_to_eq)

lemma deref_resize_camera:
  assumes "deref w (camera this) = Some (PerspectiveCamera c)"
  shows "deref (resize_to this wd ht w) (camera this)
           = Some (PerspectiveCamera (resized_camera (js_div wd ht) c))"
  using assms
  by (cases "renderer this = camera this")
     (auto simp: deref_def resize_to_eq split: if_splits)

lemma deref_resize_renderer:
  assumes "deref w (renderer this) = Some (WebGLRenderer a c s)"
  shows "deref (resize_to this wd ht w) (renderer this) = Some (WebGLRenderer a c (wd, ht))"
  using assms
  by (cases "renderer this = camera this")
     (auto simp: deref_def resize_to_eq split: if_splits)

lemma has_kind_renderer:
  assumes "has_kind is_WebGLRenderer w r"
  obtains a c s where "deref w r = Some (WebGLRenderer a c s)"
proof -
  from assms obtain ob where ob: "deref w r = Some ob" "is_WebGLRenderer ob"
    by (auto simp: has_kind_def split: option.splits)
  then show ?thesis using that by (cases ob) auto
qed

lemma has_kind_camera:
  assumes "has_kind is_PerspectiveCamera w r"
  obtains c where "deref w r = Some (PerspectiveCamera c)"
proof -
  from assms obtain ob where ob: "deref w r = Some ob" "is_PerspectiveCamera ob"
    by (auto simp: has_kind_def split: option.splits)
  then show ?thesis using that by (cases ob) auto
qed

lemma has_kind_both:
  assumes "has_kind P w r" and "has_kind Q w r"
  shows "\<exists>ob. P ob \<and> Q ob"
  using assms by (auto simp: has_kind_def split: option.splits)

lemma not_renderer_or_camera:
  "is_Scene ob \<Longrightarrow> \<not> is_WebGLRenderer ob" "is_Scene ob \<Longrightarrow> \<not> is_PerspectiveCamera ob"
  "is_light ob \<Longrightarrow> \<not> is_WebGLRenderer ob" "is_light ob \<Longrightarrow> \<not> is_PerspectiveCamera ob"
  "is_BoxGeometry ob \<Longrightarrow> \<not> is_WebGLRenderer ob"
  "is_BoxGeometry ob \<Longrightarrow> \<not> is_PerspectiveCamera ob"
  "is_MeshPhysicalMaterial ob \<Longrightarrow> \<not> is_WebGLRenderer ob"
  "is_MeshPhysicalMaterial ob \<Longrightarrow> \<not> is_PerspectiveCamera ob"
  "is_Mesh ob \<Longrightarrow> \<not> is_WebGLRenderer ob" "is_Mesh ob \<Longrightarrow> \<not> is_PerspectiveCamera ob"
  "is_OrbitControls ob \<Longrightarrow> \<not> is_WebGLRenderer ob"
  "is_OrbitControls ob \<Longrightarrow> \<not> is_PerspectiveCamera ob"
  by (cases ob; simp)+

lemma wf_apart:
  assumes "ThreeApp_wf this w"
    and "r \<in> {scene this, directionalLight this, ambientLight this, geometry this,
               material this, controls this, box this} \<union> set (boxArray this)"
  shows "r \<noteq> renderer this" and "r \<noteq> camera this"
proof -
  from assms have "has_kind is_Scene w r \<or> has_kind is_light w r \<or> has_kind is_BoxGeometry w r
      \<or> has_kind is_MeshPhysicalMaterial w r \<or> has_kind is_OrbitControls w r
      \<or> has_kind is_Mesh w r"
    by (auto simp: ThreeApp_wf_def list_all_iff)
  moreover from assms(1) have "has_kind is_WebGLRenderer w (renderer this)"
    and "has_kind is_PerspectiveCamera w (camera this)"
    by (simp_all add: ThreeApp_wf_def)
  ultimately show "r \<noteq> renderer this" and "r \<noteq> camera this"
    by (metis has_kind_both not_renderer_or_camera)+
qed


lemma resized_camera_fields:
  "fov (resized_camera a c) = fov c" "near (resized_camera a c) = near c"
  "far (resized_camera a c) = far c" "position (resized_camera a c) = position c"
  "orientation (resized_camera a c) = orientation c" "aspect (resized_camera a c) = a"
  "projectionMatrix (resized_camera a c) = current_projection (resized_camera a c)"
  by (simp_all add: resized_camera_def current_projection_def)

lemma example_wf: "ThreeApp_wf example_app example_world"
  unfolding example_eq by (rule built_wf)

text \<open>
  C6: for a resize to \<open>wd\<close> by \<open>ht\<close>, the listener sets the renderer's size to
  \<open>(wd, ht)\<close> and the camera's aspect to the quotient \<open>wd / ht\<close> of JavaScript (the real
  quotient when \<open>ht\<close> is not zero), and calls \<open>updateProjectionMatrix\<close>, after which the
  projection is the one of the camera's current parameters.
\<close>

theorem resize_sets_size_and_aspect:
  assumes "has_kind is_WebGLRenderer w (renderer this)"
    and "has_kind is_PerspectiveCamera w (camera this)"
  shows "renderer_size (resize_to this wd ht w) (renderer this) = Some (wd, ht)
         \<and> camera_aspect (resize_to this wd ht w) (camera this) = Some (js_div wd ht)
         \<and> (0 < ht \<longrightarrow> js_div wd ht = Num (real wd / real ht))
         \<and> map_option projectionMatrix (camera_of (resize_to this wd ht w) (camera this))
             = map_option current_projection (camera_of (resize_to this wd ht w) (camera this))
         \<and> calls (resize_to this wd ht w) = calls w @ [Call_updateProjectionMatrix (camera this)]"
proof -
  from assms(1) obtain a c s where r: "deref w (renderer this) = Some (WebGLRenderer a c s)"
    by (rule has_kind_renderer)
  from assms(2) obtain cam where c: "deref w (camera this) = Some (PerspectiveCamera cam)"
    by (rule has_kind_camera)
  show ?thesis
    by (simp add: renderer_size_def camera_aspect_def camera_of_def
        deref_resize_renderer[OF r] deref_resize_camera[OF c] resized_camera_fields)
       (simp add: js_div_def resize_to_eq)
qed

theorem resize_sets_size_and_aspect_witness:
  "renderer_size (resize_to example_app 1024 768 example_world) (renderer example_app)
     = Some (1024, 768)
   \<and> camera_aspect (resize_to example_app 1024 768 example_world) (camera example_app)
       = Some (Num (1024 / 768))"
proof -
  have "has_kind is_WebGLRenderer example_world (renderer example_app)"
    and "has_kind is_PerspectiveCamera example_world (camera example_app)"
    using example_wf by (simp_all add: ThreeApp_wf_def)
  from resize_sets_size_and_aspect[OF this, of 1024 768] show ?thesis
    by (simp add: js_div_def)
qed


lemma obj_resize_idem:
  "obj_camera (resized_camera a)
      (obj_setSize wd ht (obj_camera (resized_camera a) (obj_setSize wd ht ob)))
     = obj_camera (resized_camera a) (obj_setSize wd ht ob)"
  by (cases ob) (simp_all add: resized_camera_def)

lemma obj_setSize_idem: "obj_setSize wd ht (obj_setSize wd ht ob) = obj_setSize wd ht ob"
  by (cases ob) simp_all

lemma obj_resized_idem:
  "obj_camera (resized_camera a) (obj_camera (resized_camera a) ob)
     = obj_camera (resized_camera a) ob"
  by (cases ob) (simp_all add: resized_camera_def)

lemma resize_twice_heap:
  "heap (resize_to this wd ht (resize_to this wd ht w)) = heap (resize_to this wd ht w)"
proof (cases "renderer this = camera this")
  case True
  then show ?thesis
    by (cases "camera this < length (heap w)")
       (simp_all add: resize_to_eq obj_resize_idem list_update_beyond)
next
  case False
  then show ?thesis
    by (cases "camera this < length (heap w)"; cases "renderer this < length (heap w)")
       (simp_all add: resize_to_eq obj_setSize_idem obj_resized_idem list_update_beyond
          list_update_swap[of "camera this" "renderer this"])
qed

text \<open>
  C7: from every state, running the resize listener a second time for the same dimensions
  leaves the renderer's size and the camera's aspect (indeed the whole store of objects)
  as the first run left them.
\<close>

theorem resize_idempotent:
  "renderer_size (resize_to this wd ht (resize_to this wd ht w)) (renderer this)
     = renderer_size (resize_to this wd ht w) (renderer this)
   \<and> camera_aspect (resize_to this wd ht (resize_to this wd ht w)) (camera this)
       = camera_aspect (resize_to this wd ht w) (camera this)
   \<and> heap (resize_to this wd ht (resize_to this wd ht w)) = heap (resize_to this wd ht w)"
  by (simp add: renderer_size_def camera_aspect_def camera_of_def deref_def resize_twice_heap)

text \<open>
  C10: on an application whose references have the kinds the constructor gave them, the
  resize listener leaves every object other than the renderer and the camera as it was, so
  the scene's children, the lights, every mesh of the population and the standalone mesh
  (with their transforms), the geometry and the material are unchanged; of the camera, the
  field of view, the clip distances, the position and the orientation are unchanged.
\<close>

theorem resize_frame:
  assumes "ThreeApp_wf this w" and "w' = resize_to this wd ht w"
  shows "map_option fov (camera_of w' (camera this)) = map_option fov (camera_of w (camera this))
         \<and> map_option near (camera_of w' (camera this))
             = map_option near (camera_of w (camera this))
         \<and> map_option far (camera_of w' (camera this))
             = map_option far (camera_of w (camera this))
         \<and> map_option position (camera_of w' (camera this))
             = map_option position (camera_of w (camera this))
         \<and> map_option orientation (camera_of w' (camera this))
             = map_option orientation (camera_of w (camera this))
         \<and> scene_children w' (scene this) = scene_children w (scene this)
         \<and> deref w' (directionalLight this) = deref w (directionalLight this)
         \<and> deref w' (ambientLight this) = deref w (ambientLight this)
         \<and> map (deref w') (boxArray this) = map (deref w) (boxArray this)
         \<and> map (mesh_transform w') (boxArray this) = map (mesh_transform w) (boxArray this)
         \<and> deref w' (box this) = deref w (box this)
         \<and> deref w' (geometry this) = deref w (geometry this)
         \<and> deref w' (material this) = deref w (material this)
         \<and> deref w' (controls this) = deref w (controls this)
         \<and> (\<forall>r. r \<noteq> renderer this \<and> r \<noteq> camera this \<longrightarrow> deref w' r = deref w r)
         \<and> length (heap w') = length (heap w)"
proof -
  from assms(1) have "has_kind is_PerspectiveCamera w (camera this)"
    by (simp add: ThreeApp_wf_def)
  then obtain c where c: "deref w (camera this) = Some (PerspectiveCamera c)"
    by (rule has_kind_camera)
  have cam: "camera_of w (camera this) = Some c"
    "camera_of w' (camera this) = Some (resized_camera (js_div wd ht) c)"
    by (simp_all add: camera_of_def c assms(2) deref_resize_camera[OF c])
  have same: "deref w' r = deref w r"
    if "r \<in> {scene this, directionalLight this, ambientLight this, geometry this,
               material this, controls this, box this} \<union> set (boxArray this)" for r
    unfolding assms(2) using wf_apart[OF assms(1) that] by (rule deref_resize_other)
  have pop: "map (deref w') (boxArray this) = map (deref w) (boxArray this)"
    by (rule map_cong[OF refl]) (simp add: same)
  have tr: "map (mesh_transform w') (boxArray this) = map (mesh_transform w) (boxArray this)"
    by (rule map_cong[OF refl]) (simp add: mesh_transform_def same)
  have other: "\<forall>r. r \<noteq> renderer this \<and> r \<noteq> camera this \<longrightarrow> deref w' r = deref w r"
    by (simp add: assms(2) deref_resize_other)
  have len: "length (heap w') = length (heap w)"
    by (simp add: assms(2) length_heap_resize_to)
  show ?thesis
    using pop tr other len
    by (simp add: cam resized_camera_fields scene_children_def same)
qed

theorem resize_frame_witness:
  "scene_children (resize_to example_app 1024 768 example_world) (scene example_app)
     = scene_children example_world (scene example_app)
   \<and> map (mesh_transform (resize_to example_app 1024 768 example_world)) (boxArray example_app)
       = map (mesh_transform example_world) (boxArray example_app)
   \<and> deref (resize_to example_app 1024 768 example_world) (geometry example_app)
       = deref example_world (geometry example_app)
   \<and> map_option fov (camera_of (resize_to example_app 1024 768 example_world) (camera example_app))
       = map_option fov (camera_of example_world (camera example_app))"
  using resize_frame[OF example_wf refl, of 1024 768] by blast

section \<open>The resize event on a page with one application\<close>

text \<open>
  On a page that had no resize listener before the constructor ran, the listener of the
  application is the only one, and a resize event of the host is \<open>resize_to\<close>.
\<close>

lemma constructed_listeners:
  assumes "resize_listeners w = []" and "ThreeApp_constructor st w = (app, w')"
  shows "resize_listeners w' = [ResizeListener app]"
  using assms by (auto simp add: ThreeApp_constructor_def construct_eq built_world_def)

lemma window_resize_single:
  assumes "resize_listeners w = [ResizeListener this]"
  shows "window_resize wd ht w = resize_to this wd ht w"
  using assms by (simp add: window_resize_def resize_to_def)

end
